theory Spec2Isabelle
  imports Main
begin

section \<open>The material library view controller (app.js)\<close>

text \<open>
  A shallow embedding of \<^verbatim>\<open>src/app.js\<close>. The global \<^verbatim>\<open>state\<close> object and the page
  it renders into are threaded explicitly through every function. A JavaScript exception
  is a value: a computation that only reads returns \<open>error + 'a\<close>, and a procedure
  that mutates returns a \<open>completion\<close>, which keeps the world as it stood when the
  exception was raised (assignments made before a \<^verbatim>\<open>throw\<close> are not undone).

  Scope of the model.
  \<^item> A string is a list of UTF-16 code units below 256 (Basic Latin and the Latin-1
    Supplement), a character standing for the code unit of its number. On such strings
    \<^verbatim>\<open>toLowerCase\<close> works unit by unit and \<^verbatim>\<open>trim\<close> strips the units 9-13, 32 and
    160. Text with a code unit from 256 on is outside the model.
  \<^item> A material is a JSON object whose fields, where present, have the types of the
    data contract; an absent field reads as \<^verbatim>\<open>undefined\<close> (\<open>None\<close>). A fetched
    body is not valid JSON, \<^verbatim>\<open>null\<close>, or an object whose \<^verbatim>\<open>materials\<close>, where present,
    is an array of such objects; a payload of the update call is not valid JSON or
    such an object. Other JSON values are outside the model.
  \<^item> The elements looked up by id at start-up exist in the page.
  \<^item> Every handler runs to completion: a load is one step from the request to the end
    of its \<^verbatim>\<open>try\<close>/\<^verbatim>\<open>catch\<close>, with the outcome of the request given as input.
  \<^item> Timers (debounce delay, removal of a toast after three seconds), click listeners
    and the clock used to format the sync time are not modelled; the grid and list view
    buttons, which only restyle the page, are left out.
\<close>

subsection \<open>Strings\<close>

text \<open>
  \<^verbatim>\<open>toLowerCase\<close> on one code unit below 256: A-Z (65-90) and the Latin-1 capitals
  (192-222, but not the multiplication sign 215) move up by 32; every other unit is
  left as it is.
\<close>

definition lower_char :: "char \<Rightarrow> char" where
  "lower_char c =
     (if (65 \<le> (of_char c :: nat) \<and> (of_char c :: nat) \<le> 90) \<or>
         (192 \<le> (of_char c :: nat) \<and> (of_char c :: nat) \<le> 214) \<or>
         (216 \<le> (of_char c :: nat) \<and> (of_char c :: nat) \<le> 222)
      then char_of ((of_char c :: nat) + 32) else c)"

text \<open>
  \<^verbatim>\<open>toUpperCase\<close> is only ever applied to the first letter of a name of the allow-list
  (\<^verbatim>\<open>capitalizeFirst\<close> in \<^verbatim>\<open>generateFilterTags\<close>), a lower-case letter a-z.
\<close>

definition upper_char :: "char \<Rightarrow> char" where
  "upper_char c =
     (if 97 \<le> (of_char c :: nat) \<and> (of_char c :: nat) \<le> 122
      then char_of ((of_char c :: nat) - 32) else c)"

definition toLowerCase :: "string \<Rightarrow> string" where
  "toLowerCase s = map lower_char s"

definition toUpperCase :: "string \<Rightarrow> string" where
  "toUpperCase s = map upper_char s"

text \<open>\<^verbatim>\<open>string.charAt(0).toUpperCase() + string.slice(1)\<close>\<close>

definition capitalizeFirst :: "string \<Rightarrow> string" where
  "capitalizeFirst s = toUpperCase (take 1 s) @ drop 1 s"

text \<open>
  White space and line terminators of JavaScript below 256: tab, line feed, vertical
  tab, form feed, carriage return (9-13), space (32) and no-break space (160).
\<close>

definition is_space :: "char \<Rightarrow> bool" where
  "is_space c =
     ((of_char c :: nat) = 32 \<or> (9 \<le> (of_char c :: nat) \<and> (of_char c :: nat) \<le> 13) \<or>
      (of_char c :: nat) = 160)"

definition trim :: "string \<Rightarrow> string" where
  "trim s = rev (dropWhile is_space (rev (dropWhile is_space s)))"

fun startsWith :: "string \<Rightarrow> string \<Rightarrow> bool" where
  "startsWith s [] = True"
| "startsWith [] (c # q) = False"
| "startsWith (d # s) (c # q) = (d = c \<and> startsWith s q)"

text \<open>\<^verbatim>\<open>s.includes(q)\<close> on strings: \<open>q\<close> occurs in \<open>s\<close> at some position.\<close>

fun str_includes :: "string \<Rightarrow> string \<Rightarrow> bool" where
  "str_includes [] q = (q = [])"
| "str_includes (c # s) q = (startsWith (c # s) q \<or> str_includes s q)"

text \<open>\<^verbatim>\<open>xs.includes(x)\<close> on an array of strings.\<close>

definition arr_includes :: "string list \<Rightarrow> string \<Rightarrow> bool" where
  "arr_includes xs x = (x \<in> set xs)"

text \<open>A template literal prints an absent field as the text \<^verbatim>\<open>undefined\<close>.\<close>

definition template :: "string option \<Rightarrow> string" where
  "template v = (case v of None \<Rightarrow> ''undefined'' | Some s \<Rightarrow> s)"

subsection \<open>Data\<close>

datatype error = TypeError | SyntaxError | NetworkError | LoadError

record material =
  material_id :: "string option"
  title :: "string option"
  description :: "string option"
  image_url :: "string option"
  source_url :: "string option"
  tags :: "string list option"
  board :: "string option"

text \<open>A Material of the data contract: every field is present.\<close>

definition is_Material :: "material \<Rightarrow> bool" where
  "is_Material m =
     (material_id m \<noteq> None \<and> title m \<noteq> None \<and> description m \<noteq> None \<and>
      image_url m \<noteq> None \<and> source_url m \<noteq> None \<and> tags m \<noteq> None \<and> board m \<noteq> None)"

definition tags_of :: "material \<Rightarrow> string list" where
  "tags_of m = (case tags m of None \<Rightarrow> [] | Some ts \<Rightarrow> ts)"

definition text_of :: "string option \<Rightarrow> string" where
  "text_of v = (case v of None \<Rightarrow> [] | Some s \<Rightarrow> s)"

record view_state =
  materials :: "material list"
  filteredMaterials :: "material list"
  activeFilter :: string
  searchQuery :: string
  isLoading :: bool

definition initial_state :: view_state where
  "initial_state =
     \<lparr>materials = [], filteredMaterials = [], activeFilter = ''all'', searchQuery = [],
      isLoading = True\<rparr>"

record card =
  card_id :: string
  card_image :: string
  card_title :: string
  card_description :: string
  card_tags :: "string list"
  card_board :: string

text \<open>
  What \<^verbatim>\<open>materialsGrid.innerHTML\<close> holds: the markup the page came with, the
  empty-state placeholder, one card per material, or the error placeholder with its
  message.
\<close>

datatype grid_html = PageMarkup | EmptyState | Cards "card list" | ErrorState string

datatype display = DisplayFlex | DisplayNone

record filter_button =
  data_filter :: string
  button_label :: string
  active :: bool

text \<open>
  The four messages the script shows as a toast: \<^verbatim>\<open>Material tidak ditemukan\<close>, the
  ready-to-apply message with the title, the details message with title and board, and
  a message passed in by the host.
\<close>

datatype notice =
  NotFound | ReadyToApply string | Details string string | HostMessage string

record toast =
  toast_message :: notice
  toast_type :: string

datatype log_entry =
  ErrorFetchingLibrary error | ErrorUpdatingMaterial error | ApplyingMaterial material

text \<open>
  The page. \<open>loadingInGrid\<close> is a fact of the page's markup (the markup is not part of
  the script): whether the element \<^verbatim>\<open>#loadingState\<close> lies inside
  \<^verbatim>\<open>#materialsGrid\<close>. If it does, assigning \<^verbatim>\<open>materialsGrid.innerHTML\<close> removes it
  from the document; \<open>loadingAttached\<close> records whether it is still there.
  \<open>filtersContainer\<close> lists the filter controls in document order; the "all" control
  of the page is taken to carry the class \<^verbatim>\<open>filter-tag\<close> like the generated ones.
  \<open>syncTime\<close> holds the \<^verbatim>\<open>last_sync\<close> value the label was last formatted from, and
  \<open>materialCount\<close> the number shown as the count.
\<close>

record page =
  materialsGrid :: grid_html
  searchInput :: string
  filtersContainer :: "filter_button list"
  materialCount :: nat
  syncTime :: string
  loadingState :: display
  loadingAttached :: bool
  loadingInGrid :: bool
  toastContainer :: "toast list"

text \<open>
  \<open>sketchup\<close> is the host object: \<open>None\<close> when \<^verbatim>\<open>typeof sketchup\<close> is
  \<^verbatim>\<open>'undefined'\<close>, otherwise the materials passed to \<^verbatim>\<open>sketchup.applyMaterial\<close>
  so far.
\<close>

record world =
  state :: view_state
  elements :: page
  console :: "log_entry list"
  sketchup :: "material list option"

datatype completion = Returns world | Throws error world

text \<open>The outcome of \<^verbatim>\<open>fetch\<close> followed by \<^verbatim>\<open>response.json()\<close>.\<close>

record catalog =
  catalog_materials :: "material list option"
  last_sync :: "string option"

datatype body = InvalidJSON | NullJSON | CatalogJSON catalog

datatype response = NetworkFailure | Response bool body

text \<open>The outcome of \<^verbatim>\<open>JSON.parse\<close> on the payload of the bridge's update call.\<close>

datatype payload = InvalidPayload | MaterialPayload material

subsection \<open>Helpers over lists\<close>

fun filterE :: "('a \<Rightarrow> error + bool) \<Rightarrow> 'a list \<Rightarrow> error + 'a list" where
  "filterE p [] = Inr []"
| "filterE p (x # xs) =
     (case p x of
        Inl e \<Rightarrow> Inl e
      | Inr b \<Rightarrow>
          (case filterE p xs of
             Inl e \<Rightarrow> Inl e
           | Inr ys \<Rightarrow> Inr (if b then x # ys else ys)))"

fun mapE :: "('a \<Rightarrow> error + 'b) \<Rightarrow> 'a list \<Rightarrow> error + 'b list" where
  "mapE f [] = Inr []"
| "mapE f (x # xs) =
     (case f x of
        Inl e \<Rightarrow> Inl e
      | Inr y \<Rightarrow> (case mapE f xs of Inl e \<Rightarrow> Inl e | Inr ys \<Rightarrow> Inr (y # ys)))"

fun findIndex :: "('a \<Rightarrow> bool) \<Rightarrow> 'a list \<Rightarrow> nat option" where
  "findIndex p [] = None"
| "findIndex p (x # xs) =
     (if p x then Some 0 else map_option Suc (findIndex p xs))"

definition Set_add :: "string \<Rightarrow> string list \<Rightarrow> string list" where
  "Set_add x s = (if x \<in> set s then s else s @ [x])"

subsection \<open>UI helpers\<close>

definition showLoading :: "world \<Rightarrow> world" where
  "showLoading w = w\<lparr>elements := (elements w)\<lparr>loadingState := DisplayFlex\<rparr>\<rparr>"

definition hideLoading :: "world \<Rightarrow> world" where
  "hideLoading w = w\<lparr>elements := (elements w)\<lparr>loadingState := DisplayNone\<rparr>\<rparr>"

text \<open>Assignment to \<^verbatim>\<open>elements.materialsGrid.innerHTML\<close>.\<close>

definition set_materialsGrid :: "grid_html \<Rightarrow> world \<Rightarrow> world" where
  "set_materialsGrid h w =
     w\<lparr>elements := (elements w)
        \<lparr>materialsGrid := h,
         loadingAttached := (loadingAttached (elements w) \<and> \<not> loadingInGrid (elements w))\<rparr>\<rparr>"

definition showError :: "string \<Rightarrow> world \<Rightarrow> world" where
  "showError message w = set_materialsGrid (ErrorState message) w"

definition showToast :: "notice \<Rightarrow> string \<Rightarrow> world \<Rightarrow> world" where
  "showToast message type w =
     w\<lparr>elements := (elements w)
        \<lparr>toastContainer :=
           toastContainer (elements w) @ [\<lparr>toast_message = message, toast_type = type\<rparr>]\<rparr>\<rparr>"

text \<open>The loading indicator is not on screen: removed from the document, or not displayed.\<close>

definition loadingHidden :: "world \<Rightarrow> bool" where
  "loadingHidden w =
     (\<not> loadingAttached (elements w) \<or> loadingState (elements w) = DisplayNone)"

subsection \<open>Rendering\<close>

definition createMaterialCard :: "material \<Rightarrow> error + card" where
  "createMaterialCard m =
     (case tags m of
        None \<Rightarrow> Inl TypeError
      | Some ts \<Rightarrow>
          Inr \<lparr>card_id = template (material_id m), card_image = template (image_url m),
               card_title = template (title m), card_description = template (description m),
               card_tags = take 3 ts, card_board = template (board m)\<rparr>)"

definition renderMaterials :: "world \<Rightarrow> completion" where
  "renderMaterials w =
     (let w1 = hideLoading w in
      if filteredMaterials (state w1) = [] then
        Returns ((set_materialsGrid EmptyState w1)
                   \<lparr>elements := (elements (set_materialsGrid EmptyState w1))\<lparr>materialCount := 0\<rparr>\<rparr>)
      else
        (case mapE createMaterialCard (filteredMaterials (state w1)) of
           Inl e \<Rightarrow> Throws e w1
         | Inr cards \<Rightarrow>
             Returns ((set_materialsGrid (Cards cards) w1)
                        \<lparr>elements := (elements (set_materialsGrid (Cards cards) w1))
                           \<lparr>materialCount := length (filteredMaterials (state w1))\<rparr>\<rparr>)))"

definition mainCategories :: "string list" where
  "mainCategories = [''kayu'', ''batik'', ''batu'', ''bambu'', ''rotan'']"

fun allTags :: "material list \<Rightarrow> string list \<Rightarrow> error + string list" where
  "allTags [] acc = Inr acc"
| "allTags (m # ms) acc =
     (case tags m of
        None \<Rightarrow> Inl TypeError
      | Some ts \<Rightarrow> allTags ms (fold Set_add ts acc))"

definition categoryTags :: "string list \<Rightarrow> string list" where
  "categoryTags all = filter (\<lambda>cat. cat \<in> set all) mainCategories"

definition filtersHtml :: "string list \<Rightarrow> filter_button list" where
  "filtersHtml cats =
     map (\<lambda>tag. \<lparr>data_filter = tag, button_label = capitalizeFirst tag, active = False\<rparr>) cats"

text \<open>
  \<^verbatim>\<open>querySelector('[data-filter="all"]')\<close> takes the first such control, and
  \<^verbatim>\<open>insertAdjacentHTML('afterend', ...)\<close> puts the new controls right after it; with
  no such control the call is made on \<^verbatim>\<open>null\<close>.
\<close>

fun insertAfterAll :: "filter_button list \<Rightarrow> filter_button list \<Rightarrow> filter_button list option" where
  "insertAfterAll [] new = None"
| "insertAfterAll (b # bs) new =
     (if data_filter b = ''all'' then Some (b # new @ bs)
      else map_option ((#) b) (insertAfterAll bs new))"

definition generateFilterTags :: "world \<Rightarrow> completion" where
  "generateFilterTags w =
     (case allTags (materials (state w)) [] of
        Inl e \<Rightarrow> Throws e w
      | Inr all \<Rightarrow>
          (case insertAfterAll (filtersContainer (elements w)) (filtersHtml (categoryTags all)) of
             None \<Rightarrow> Throws TypeError w
           | Some bs \<Rightarrow> Returns (w\<lparr>elements := (elements w)\<lparr>filtersContainer := bs\<rparr>\<rparr>)))"

subsection \<open>Filtering and search\<close>

definition hasTag :: "string \<Rightarrow> material \<Rightarrow> error + bool" where
  "hasTag f m =
     (case tags m of None \<Rightarrow> Inl TypeError | Some ts \<Rightarrow> Inr (arr_includes ts f))"

text \<open>
  The search predicate, with the evaluation order of \<^verbatim>\<open>||\<close>: a field is read only
  when every field before it failed to match.
\<close>

definition matchesQuery :: "string \<Rightarrow> material \<Rightarrow> error + bool" where
  "matchesQuery query m =
     (case title m of
        None \<Rightarrow> Inl TypeError
      | Some t \<Rightarrow>
          if str_includes (toLowerCase t) query then Inr True
          else
            (case description m of
               None \<Rightarrow> Inl TypeError
             | Some d \<Rightarrow>
                 if str_includes (toLowerCase d) query then Inr True
                 else
                   (case tags m of
                      None \<Rightarrow> Inl TypeError
                    | Some ts \<Rightarrow>
                        if list_ex (\<lambda>tag. str_includes (toLowerCase tag) query) ts then Inr True
                        else
                          (case board m of
                             None \<Rightarrow> Inl TypeError
                           | Some b \<Rightarrow> Inr (str_includes (toLowerCase b) query)))))"

definition tagFilter :: "string \<Rightarrow> material list \<Rightarrow> error + material list" where
  "tagFilter f ms = (if f \<noteq> ''all'' then filterE (hasTag f) ms else Inr ms)"

definition searchFilter :: "string \<Rightarrow> material list \<Rightarrow> error + material list" where
  "searchFilter q ms =
     (if trim q \<noteq> [] then filterE (matchesQuery (toLowerCase q)) ms else Inr ms)"

text \<open>The list \<^verbatim>\<open>applyFilters\<close> computes before it stores and renders it.\<close>

definition filterPipeline :: "material list \<Rightarrow> string \<Rightarrow> string \<Rightarrow> error + material list" where
  "filterPipeline ms f q =
     (case tagFilter f ms of Inl e \<Rightarrow> Inl e | Inr filtered \<Rightarrow> searchFilter q filtered)"

definition applyFilters :: "world \<Rightarrow> completion" where
  "applyFilters w =
     (case filterPipeline (materials (state w)) (activeFilter (state w)) (searchQuery (state w)) of
        Inl e \<Rightarrow> Throws e w
      | Inr filtered \<Rightarrow>
          renderMaterials (w\<lparr>state := (state w)\<lparr>filteredMaterials := filtered\<rparr>\<rparr>))"

definition setActiveFilter :: "string \<Rightarrow> world \<Rightarrow> completion" where
  "setActiveFilter f w =
     applyFilters
       (w\<lparr>state := (state w)\<lparr>activeFilter := f\<rparr>,
          elements := (elements w)
            \<lparr>filtersContainer :=
               map (\<lambda>btn. btn\<lparr>active := (data_filter btn = f)\<rparr>) (filtersContainer (elements w))\<rparr>\<rparr>)"

subsection \<open>Event listeners\<close>


definition onSearchInput :: "world \<Rightarrow> completion" where
  "onSearchInput w =
     applyFilters (w\<lparr>state := (state w)\<lparr>searchQuery := searchInput (elements w)\<rparr>\<rparr>)"

definition onSearchKeydown :: "string \<Rightarrow> world \<Rightarrow> completion" where
  "onSearchKeydown key w =
     (if key = ''Escape'' then
        applyFilters
          (w\<lparr>elements := (elements w)\<lparr>searchInput := []\<rparr>,
             state := (state w)\<lparr>searchQuery := []\<rparr>\<rparr>)
      else Returns w)"

subsection \<open>Material actions\<close>

definition applyMaterial :: "string option \<Rightarrow> world \<Rightarrow> world" where
  "applyMaterial materialId w =
     (case find (\<lambda>m. material_id m = materialId) (materials (state w)) of
        None \<Rightarrow> showToast NotFound ''error'' w
      | Some m \<Rightarrow>
          (let w1 = w\<lparr>console := console w @ [ApplyingMaterial m]\<rparr> in
           case sketchup w1 of
             Some calls \<Rightarrow> w1\<lparr>sketchup := Some (calls @ [m])\<rparr>
           | None \<Rightarrow> showToast (ReadyToApply (template (title m))) ''success'' w1))"

definition showMaterialDetails :: "string option \<Rightarrow> world \<Rightarrow> world" where
  "showMaterialDetails materialId w =
     (case find (\<lambda>m. material_id m = materialId) (materials (state w)) of
        None \<Rightarrow> w
      | Some m \<Rightarrow>
          if source_url m \<noteq> None \<and> source_url m \<noteq> Some [] then
            showToast (Details (template (title m)) (template (board m))) ''success'' w
          else w)"

subsection \<open>Data fetching\<close>

definition errorMessage :: string where
  "errorMessage = ''Gagal memuat library. Pastikan file library.json tersedia.''"

text \<open>The body of the \<^verbatim>\<open>try\<close> block of \<^verbatim>\<open>fetchLibrary\<close>.\<close>

definition fetchLibrary_try :: "response \<Rightarrow> world \<Rightarrow> completion" where
  "fetchLibrary_try r w =
     (let w1 = showLoading (w\<lparr>state := (state w)\<lparr>isLoading := True\<rparr>\<rparr>) in
      case r of
        NetworkFailure \<Rightarrow> Throws NetworkError w1
      | Response ok b \<Rightarrow>
          if \<not> ok then Throws LoadError w1
          else
            (case b of
               InvalidJSON \<Rightarrow> Throws SyntaxError w1
             | NullJSON \<Rightarrow> Throws TypeError w1
             | CatalogJSON data \<Rightarrow>
                 (let ms = (case catalog_materials data of None \<Rightarrow> [] | Some l \<Rightarrow> l);
                      w2 = w1\<lparr>state := (state w1)\<lparr>materials := ms, filteredMaterials := ms\<rparr>\<rparr>;
                      w3 = (case last_sync data of
                              None \<Rightarrow> w2
                            | Some d \<Rightarrow>
                                if d \<noteq> [] then w2\<lparr>elements := (elements w2)\<lparr>syncTime := d\<rparr>\<rparr>
                                else w2)
                  in case generateFilterTags w3 of
                       Throws e w' \<Rightarrow> Throws e w'
                     | Returns w4 \<Rightarrow>
                         (case renderMaterials w4 of
                            Throws e w' \<Rightarrow> Throws e w'
                          | Returns w5 \<Rightarrow>
                              Returns (w5\<lparr>state := (state w5)\<lparr>isLoading := False\<rparr>\<rparr>)))))"

text \<open>The \<^verbatim>\<open>catch\<close> block of \<^verbatim>\<open>fetchLibrary\<close>.\<close>

definition fetchLibrary_catch :: "error \<Rightarrow> world \<Rightarrow> world" where
  "fetchLibrary_catch e w =
     (let w1 = w\<lparr>console := console w @ [ErrorFetchingLibrary e]\<rparr>;
          w2 = showError errorMessage w1
      in w2\<lparr>state := (state w2)\<lparr>isLoading := False\<rparr>\<rparr>)"

definition fetchLibrary :: "response \<Rightarrow> world \<Rightarrow> world" where
  "fetchLibrary r w =
     (case fetchLibrary_try r w of
        Returns w' \<Rightarrow> w'
      | Throws e w' \<Rightarrow> fetchLibrary_catch e w')"

subsection \<open>Bridge functions\<close>

definition refreshLibrary :: "response \<Rightarrow> world \<Rightarrow> world" where
  "refreshLibrary r w = fetchLibrary r w"

definition updateMaterial_try :: "payload \<Rightarrow> world \<Rightarrow> completion" where
  "updateMaterial_try materialJson w =
     (case materialJson of
        InvalidPayload \<Rightarrow> Throws SyntaxError w
      | MaterialPayload m \<Rightarrow>
          (case findIndex (\<lambda>x. material_id x = material_id m) (materials (state w)) of
             Some index \<Rightarrow>
               applyFilters
                 (w\<lparr>state := (state w)\<lparr>materials := (materials (state w))[index := m]\<rparr>\<rparr>)
           | None \<Rightarrow>
               applyFilters
                 (w\<lparr>state := (state w)\<lparr>materials := materials (state w) @ [m]\<rparr>\<rparr>)))"

definition updateMaterial :: "payload \<Rightarrow> world \<Rightarrow> world" where
  "updateMaterial materialJson w =
     (case updateMaterial_try materialJson w of
        Returns w' \<Rightarrow> w'
      | Throws e w' \<Rightarrow> w'\<lparr>console := console w' @ [ErrorUpdatingMaterial e]\<rparr>)"

definition showMessage :: "string \<Rightarrow> string \<Rightarrow> world \<Rightarrow> world" where
  "showMessage message type w = showToast (HostMessage message) type w"

subsection \<open>What the specification speaks of\<close>

text \<open>
  The stored filtered list agrees with a recomputation from the materials, the active
  filter and the search query.
\<close>

definition filtered_in_sync :: "world \<Rightarrow> bool" where
  "filtered_in_sync w =
     (filterPipeline (materials (state w)) (activeFilter (state w)) (searchQuery (state w))
        = Inr (filteredMaterials (state w)))"

text \<open>
  Letter case, stated without reference to the script: the table of the capital letters
  below 256 and their small forms, A-Z with a-z and the Latin-1 capitals with theirs.
  Two characters are the same letter when they are equal or one is the other's form in
  the table.
\<close>

definition latin_upper :: string where
  "latin_upper =
     [CHR 0xC0, CHR 0xC1, CHR 0xC2, CHR 0xC3, CHR 0xC4, CHR 0xC5, CHR 0xC6, CHR 0xC7,
      CHR 0xC8, CHR 0xC9, CHR 0xCA, CHR 0xCB, CHR 0xCC, CHR 0xCD, CHR 0xCE, CHR 0xCF,
      CHR 0xD0, CHR 0xD1, CHR 0xD2, CHR 0xD3, CHR 0xD4, CHR 0xD5, CHR 0xD6, CHR 0xD8,
      CHR 0xD9, CHR 0xDA, CHR 0xDB, CHR 0xDC, CHR 0xDD, CHR 0xDE]"

definition latin_lower :: string where
  "latin_lower =
     [CHR 0xE0, CHR 0xE1, CHR 0xE2, CHR 0xE3, CHR 0xE4, CHR 0xE5, CHR 0xE6, CHR 0xE7,
      CHR 0xE8, CHR 0xE9, CHR 0xEA, CHR 0xEB, CHR 0xEC, CHR 0xED, CHR 0xEE, CHR 0xEF,
      CHR 0xF0, CHR 0xF1, CHR 0xF2, CHR 0xF3, CHR 0xF4, CHR 0xF5, CHR 0xF6, CHR 0xF8,
      CHR 0xF9, CHR 0xFA, CHR 0xFB, CHR 0xFC, CHR 0xFD, CHR 0xFE]"

definition case_pairs :: "(char \<times> char) list" where
  "case_pairs =
     zip ''ABCDEFGHIJKLMNOPQRSTUVWXYZ'' ''abcdefghijklmnopqrstuvwxyz'' @
     zip latin_upper latin_lower"

definition same_letter :: "char \<Rightarrow> char \<Rightarrow> bool" where
  "same_letter c d = (c = d \<or> (c, d) \<in> set case_pairs \<or> (d, c) \<in> set case_pairs)"

text \<open>
  \<open>q\<close> occurs in \<open>s\<close> up to letter case: at some offset of \<open>s\<close>, the next
  \<open>length q\<close> characters are, one by one, the same letters as those of \<open>q\<close>.
\<close>

definition occurs_ci :: "string \<Rightarrow> string \<Rightarrow> bool" where
  "occurs_ci q s =
     list_ex (\<lambda>i. list_all2 same_letter (take (length q) (drop i s)) q) [0 ..< Suc (length s)]"

definition search_hit :: "string \<Rightarrow> material \<Rightarrow> bool" where
  "search_hit q m =
     (occurs_ci q (text_of (title m)) \<or> occurs_ci q (text_of (description m)) \<or>
      list_ex (occurs_ci q) (tags_of m) \<or> occurs_ci q (text_of (board m)))"

text \<open>
  Modelled from the spec: the page's markup (index.html) is not among the sources. The
  page starts with the permanent "all" control, marked active, as the only filter
  control, an empty search box, no toast, and the loading indicator in the document and
  displayed. Whether the indicator lies inside the display region is the parameter
  \<open>inGrid\<close>.
\<close>

definition initial_page :: "bool \<Rightarrow> page" where
  "initial_page inGrid =
     \<lparr>materialsGrid = PageMarkup, searchInput = [],
      filtersContainer = [\<lparr>data_filter = ''all'', button_label = ''Semua'', active = True\<rparr>],
      materialCount = 0, syncTime = [], loadingState = DisplayFlex, loadingAttached = True,
      loadingInGrid = inGrid, toastContainer = []\<rparr>"

definition initial_world :: "bool \<Rightarrow> world" where
  "initial_world inGrid =
     \<lparr>state = initial_state, elements = initial_page inGrid, console = [], sketchup = None\<rparr>"

text \<open>Whether a procedure ran to its end, and the world it left behind either way.\<close>

definition returns :: "completion \<Rightarrow> bool" where
  "returns c = (case c of Returns w \<Rightarrow> True | Throws e w \<Rightarrow> False)"

definition the_world :: "completion \<Rightarrow> world" where
  "the_world c = (case c of Returns w \<Rightarrow> w | Throws e w \<Rightarrow> w)"

subsection \<open>Example data\<close>

text \<open>
  The two materials of the specification's scenario, a JSON object that has an id and
  nothing else, a catalog holding the two materials, and the world right after the
  page has loaded that catalog (with the loading indicator inside the display region).
\<close>

definition kayu_jati :: material where
  "kayu_jati =
     \<lparr>material_id = Some ''a'', title = Some ''Kayu Jati'', description = Some ''Serat halus'',
      image_url = Some ''a.jpg'', source_url = Some ''pin/a'', tags = Some [''kayu''],
      board = Some ''Tekstur''\<rparr>"

definition batu_alam :: material where
  "batu_alam =
     \<lparr>material_id = Some ''b'', title = Some ''Batu Alam'', description = Some ''Permukaan kasar'',
      image_url = Some ''b.jpg'', source_url = Some ''pin/b'', tags = Some [''batu''],
      board = Some ''Tekstur''\<rparr>"

definition untagged :: material where
  "untagged =
     \<lparr>material_id = Some ''z'', title = None, description = None, image_url = None,
      source_url = None, tags = None, board = None\<rparr>"

definition library :: catalog where
  "library = \<lparr>catalog_materials = Some [kayu_jati, batu_alam], last_sync = None\<rparr>"

definition loaded_world :: world where
  "loaded_world = fetchLibrary (Response True (CatalogJSON library)) (initial_world True)"

text \<open>The same world after a click on the "kayu" control, and after a search for JATI.\<close>

definition kayu_selected :: world where
  "kayu_selected = the_world (setActiveFilter ''kayu'' loaded_world)"


text \<open>Payloads for the bridge: a changed copy of the first material, and a new one.\<close>

definition kayu_jati_changed :: material where
  "kayu_jati_changed = kayu_jati\<lparr>title := Some ''Kayu Jati Tua''\<rparr>"

definition bambu_petung :: material where
  "bambu_petung =
     \<lparr>material_id = Some ''c'', title = Some ''Bambu Petung'', description = Some ''Ruas panjang'',
      image_url = Some ''c.jpg'', source_url = Some ''pin/c'', tags = Some [''bambu''],
      board = Some ''Tekstur''\<rparr>"



text \<open>A catalog whose only material has no tags.\<close>

definition untagged_library :: catalog where
  "untagged_library = \<lparr>catalog_materials = Some [untagged], last_sync = None\<rparr>"

section \<open>Properties\<close>

subsection \<open>Strings\<close>

lemma startsWith_iff: "startsWith s q \<longleftrightarrow> (\<exists>ss. s = q @ ss)"
  by (induction s q rule: startsWith.induct) auto

lemma str_includes_iff: "str_includes s q \<longleftrightarrow> (\<exists>ps ss. s = ps @ q @ ss)"
proof (induction s)
  case Nil
  then show ?case by auto
next
  case (Cons c s)
  show ?case
  proof
    assume "str_includes (c # s) q"
    then consider "startsWith (c # s) q" | "str_includes s q" by auto
    then show "\<exists>ps ss. c # s = ps @ q @ ss"
    proof cases
      case 1
      then obtain ss where "c # s = q @ ss" by (auto simp: startsWith_iff)
      then have "c # s = [] @ q @ ss" by simp
      then show ?thesis by blast
    next
      case 2
      then obtain ps ss where "s = ps @ q @ ss" using Cons.IH by auto
      then have "c # s = (c # ps) @ q @ ss" by simp
      then show ?thesis by blast
    qed
  next
    assume "\<exists>ps ss. c # s = ps @ q @ ss"
    then obtain ps ss where eq: "c # s = ps @ q @ ss" by blast
    show "str_includes (c # s) q"
    proof (cases ps)
      case Nil
      with eq have "startsWith (c # s) q" by (auto simp: startsWith_iff)
      then show ?thesis by simp
    next
      case (Cons p ps')
      with eq have "s = ps' @ q @ ss" by simp
      then have "str_includes s q" using Cons.IH by blast
      then show ?thesis by simp
    qed
  qed
qed

text \<open>The script's lower-casing agrees with the table of letters.\<close>

lemma case_pairs_codes:
  "case_pairs =
     map (\<lambda>n. (char_of n, char_of (n + 32))) ([65 ..< 91] @ [192 ..< 215] @ [216 ..< 223 :: nat])"
  by (simp add: case_pairs_def latin_upper_def latin_lower_def char_of_def bit_Suc_0_iff)

lemma set_case_pairs:
  "set case_pairs =
     (\<lambda>n. (char_of n, char_of (n + 32))) ` ({65 ..< 91} \<union> {192 ..< 215} \<union> {216 ..< 223 :: nat})"
  by (simp only: case_pairs_codes set_map set_append set_upt Un_assoc)

lemma case_pairs_iff:
  "(c, d) \<in> set case_pairs \<longleftrightarrow>
     ((65 \<le> (of_char c :: nat) \<and> (of_char c :: nat) \<le> 90) \<or>
      (192 \<le> (of_char c :: nat) \<and> (of_char c :: nat) \<le> 214) \<or>
      (216 \<le> (of_char c :: nat) \<and> (of_char c :: nat) \<le> 222)) \<and>
     (of_char d :: nat) = of_char c + 32"
  (is "?L \<longleftrightarrow> ?R")
proof
  assume ?L
  then obtain n :: nat where n: "n \<in> {65 ..< 91} \<union> {192 ..< 215} \<union> {216 ..< 223}"
      and c: "c = char_of n" and d: "d = char_of (n + 32)"
    unfolding set_case_pairs by blast
  from n have "n mod 256 = n" "(n + 32) mod 256 = n + 32" by auto
  then have "(of_char c :: nat) = n" "(of_char d :: nat) = n + 32"
    by (simp_all add: c d)
  with n show ?R by auto
next
  assume a: ?R
  define n :: nat where "n = of_char c"
  have c: "c = char_of n" by (simp add: n_def)
  have "d = char_of (of_char d :: nat)" by simp
  then have d: "d = char_of (n + 32)" using a by (simp add: n_def)
  have "n \<in> {65 ..< 91} \<union> {192 ..< 215} \<union> {216 ..< 223}"
    using a by (auto simp: n_def)
  then show ?L
    unfolding set_case_pairs c d by (rule imageI)
qed

lemma lower_char_eq_iff: "lower_char c = lower_char d \<longleftrightarrow> same_letter c d"
proof -
  define a :: nat where "a = of_char c"
  define b :: nat where "b = of_char d"
  define up where
    "up n \<longleftrightarrow> (65 \<le> n \<and> n \<le> 90) \<or> (192 \<le> n \<and> n \<le> 214) \<or> (216 \<le> n \<and> n \<le> 222)"
    for n :: nat
  define lc where "lc n = (if up n then n + 32 else n)" for n :: nat
  have code: "(of_char (lower_char x) :: nat) = lc (of_char x)" for x
  proof -
    have "(of_char x :: nat) < 256" by simp
    then show ?thesis
      by (auto simp: lower_char_def lc_def up_def)
  qed
  have "lower_char c = lower_char d \<longleftrightarrow> (of_char (lower_char c) :: nat) = of_char (lower_char d)"
    by simp
  also have "\<dots> \<longleftrightarrow> lc a = lc b"
    by (simp only: code a_def b_def)
  also have "\<dots> \<longleftrightarrow> a = b \<or> (up a \<and> b = a + 32) \<or> (up b \<and> a = b + 32)"
    unfolding lc_def up_def by (auto split: if_splits)
  also have "\<dots> \<longleftrightarrow> same_letter c d"
    unfolding same_letter_def case_pairs_iff up_def a_def b_def by auto
  finally show ?thesis .
qed

lemma toLowerCase_eq_iff:
  "toLowerCase xs = toLowerCase ys \<longleftrightarrow> list_all2 same_letter xs ys"
proof -
  have "map lower_char xs = map lower_char ys
          \<longleftrightarrow> list_all2 (\<lambda>x y. lower_char x = lower_char y) xs ys"
    by (induction xs ys rule: list_induct2') auto
  then show ?thesis
    by (simp add: toLowerCase_def lower_char_eq_iff)
qed

lemma toLowerCase_E_acute: "toLowerCase [CHR 0xC9] = [CHR 0xE9]"
  by code_simp

lemma trim_no_break_space: "trim [CHR 0xA0] = []"
  by code_simp

lemma occurs_ci_iff:
  "occurs_ci q s \<longleftrightarrow>
     (\<exists>i\<le>length s. list_all2 same_letter (take (length q) (drop i s)) q)"
  unfolding occurs_ci_def list_ex_iff set_upt
  by (metis atLeastLessThan_iff less_Suc_eq_le zero_le)

lemma occurs_ci_lower:
  "occurs_ci q s \<longleftrightarrow> (\<exists>i\<le>length s. toLowerCase (take (length q) (drop i s)) = toLowerCase q)"
  by (simp add: occurs_ci_iff toLowerCase_eq_iff)

text \<open>
  The test the script makes, a plain substring test on the two lower-cased strings, is
  the occurrence of the query up to letter case.
\<close>

lemma str_includes_lower:
  "str_includes (toLowerCase s) (toLowerCase q) \<longleftrightarrow> occurs_ci q s"
proof
  assume "str_includes (toLowerCase s) (toLowerCase q)"
  then obtain ps ss where eq: "map lower_char s = ps @ map lower_char q @ ss"
    by (auto simp: str_includes_iff toLowerCase_def)
  then have len: "length ps \<le> length s"
    by (metis length_append length_map le_add1)
  have "map lower_char (take (length q) (drop (length ps) s))
          = take (length q) (drop (length ps) (map lower_char s))"
    by (simp add: take_map drop_map)
  also have "\<dots> = map lower_char q" by (simp add: eq)
  finally show "occurs_ci q s"
    using len by (auto simp: occurs_ci_lower toLowerCase_def)
next
  assume "occurs_ci q s"
  then obtain i where i: "i \<le> length s"
      and eq: "map lower_char (take (length q) (drop i s)) = map lower_char q"
    by (auto simp: occurs_ci_lower toLowerCase_def)
  have "s = take i s @ take (length q) (drop i s) @ drop (length q) (drop i s)"
    by (metis append_take_drop_id)
  then have "map lower_char s
      = map lower_char (take i s) @ map lower_char (take (length q) (drop i s))
          @ map lower_char (drop (length q) (drop i s))"
    by (metis map_append)
  then show "str_includes (toLowerCase s) (toLowerCase q)"
    unfolding str_includes_iff toLowerCase_def eq by blast
qed

subsection \<open>Filtering materials of the data contract\<close>

lemma filterE_total:
  "\<forall>x\<in>set xs. p x = Inr (q x) \<Longrightarrow> filterE p xs = Inr (filter q xs)"
  by (induction xs) auto

lemma hasTag_Material: "is_Material m \<Longrightarrow> hasTag f m = Inr (f \<in> set (tags_of m))"
  by (auto simp: is_Material_def hasTag_def tags_of_def arr_includes_def)

lemma matchesQuery_Material:
  "is_Material m \<Longrightarrow> matchesQuery (toLowerCase q) m = Inr (search_hit q m)"
  by (auto simp: is_Material_def matchesQuery_def search_hit_def tags_of_def text_of_def
      str_includes_lower list_ex_iff)

lemma tagFilter_Materials:
  "list_all is_Material M \<Longrightarrow>
   tagFilter f M = Inr (filter (\<lambda>m. f = ''all'' \<or> f \<in> set (tags_of m)) M)"
  by (simp add: tagFilter_def filterE_total hasTag_Material list_all_iff)

lemma searchFilter_Materials:
  "list_all is_Material M \<Longrightarrow>
   searchFilter q M = Inr (if trim q = [] then M else filter (search_hit q) M)"
  by (simp add: searchFilter_def filterE_total matchesQuery_Material list_all_iff)

lemma filterPipeline_Materials:
  assumes "list_all is_Material M"
  shows "filterPipeline M f q =
     Inr (filter (\<lambda>m. trim q = [] \<or> search_hit q m)
            (filter (\<lambda>m. f = ''all'' \<or> f \<in> set (tags_of m)) M))"
proof -
  have "list_all is_Material (filter (\<lambda>m. f = ''all'' \<or> f \<in> set (tags_of m)) M)"
    using assms by (simp add: list_all_iff)
  then show ?thesis
    using assms by (simp add: filterPipeline_def tagFilter_Materials searchFilter_Materials)
qed

subsection \<open>Rendering\<close>

lemma createMaterialCard_Material:
  "is_Material m \<Longrightarrow> \<exists>c. createMaterialCard m = Inr c"
  by (auto simp: createMaterialCard_def is_Material_def)

lemma mapE_cards:
  "list_all is_Material ms \<Longrightarrow> \<exists>cs. mapE createMaterialCard ms = Inr cs"
proof (induction ms)
  case Nil
  then show ?case by simp
next
  case (Cons m ms)
  then obtain c cs where "createMaterialCard m = Inr c" "mapE createMaterialCard ms = Inr cs"
    using createMaterialCard_Material by fastforce
  then show ?case by simp
qed

text \<open>Rendering never writes to the state, whether it completes or not.\<close>

lemma renderMaterials_state: "state (the_world (renderMaterials w)) = state w"
  by (simp add: renderMaterials_def the_world_def hideLoading_def set_materialsGrid_def Let_def
      split: sum.splits)

lemma renderMaterials_returns:
  "list_all is_Material (filteredMaterials (state w)) \<Longrightarrow> returns (renderMaterials w)"
  using mapE_cards [of "filteredMaterials (state w)"]
  by (auto simp: renderMaterials_def returns_def hideLoading_def Let_def)

lemma applyFilters_Materials:
  assumes "list_all is_Material (materials (state w))"
  shows "returns (applyFilters w)"
    and "state (the_world (applyFilters w)) =
           (state w)\<lparr>filteredMaterials :=
              filter (\<lambda>m. trim (searchQuery (state w)) = [] \<or> search_hit (searchQuery (state w)) m)
                (filter (\<lambda>m. activeFilter (state w) = ''all'' \<or> activeFilter (state w) \<in> set (tags_of m))
                   (materials (state w)))\<rparr>"
proof -
  let ?F = "filter (\<lambda>m. trim (searchQuery (state w)) = [] \<or> search_hit (searchQuery (state w)) m)
                (filter (\<lambda>m. activeFilter (state w) = ''all'' \<or> activeFilter (state w) \<in> set (tags_of m))
                   (materials (state w)))"
  have pipe: "filterPipeline (materials (state w)) (activeFilter (state w)) (searchQuery (state w)) = Inr ?F"
    using assms by (rule filterPipeline_Materials)
  have "list_all is_Material ?F" using assms by (simp add: list_all_iff)
  then show "returns (applyFilters w)"
    by (simp add: applyFilters_def pipe renderMaterials_returns)
  show "state (the_world (applyFilters w)) = (state w)\<lparr>filteredMaterials := ?F\<rparr>"
    by (simp add: applyFilters_def pipe renderMaterials_state)
qed

lemma trim_Nil: "trim [] = []"
  by (simp add: trim_def)

subsection \<open>The tag filter\<close>

text \<open>
  Claim C2. For every list \<open>M\<close> of Materials and every active filter \<open>f\<close> other than
  "all", with an empty search query, \<^verbatim>\<open>applyFilters\<close> completes and stores exactly the
  materials of \<open>M\<close> whose tags contain \<open>f\<close> (compared as they are, letter case
  included), in the order of \<open>M\<close>; the materials themselves are left as they were.
\<close>

theorem tag_filter_subsequence:
  assumes "f \<noteq> ''all''" and "list_all is_Material M"
    and "materials (state w) = M" and "activeFilter (state w) = f"
    and "searchQuery (state w) = []"
  shows "returns (applyFilters w) \<and>
         filteredMaterials (state (the_world (applyFilters w)))
           = filter (\<lambda>m. f \<in> set (tags_of m)) M \<and>
         materials (state (the_world (applyFilters w))) = M"
proof -
  have wf: "list_all is_Material (materials (state w))"
    using assms by simp
  show ?thesis
    using applyFilters_Materials [OF wf] assms by (simp add: trim_Nil)
qed

theorem tag_filter_subsequence_witness:
  "''kayu'' \<noteq> ''all'' \<and> list_all is_Material [kayu_jati, batu_alam] \<and>
   materials (state kayu_selected) = [kayu_jati, batu_alam] \<and>
   activeFilter (state kayu_selected) = ''kayu'' \<and>
   searchQuery (state kayu_selected) = [] \<and>
   returns (applyFilters kayu_selected) \<and>
   filteredMaterials (state (the_world (applyFilters kayu_selected))) = [kayu_jati]"
proof -
  have h1: "''kayu'' \<noteq> ''all''" by simp
  have h2: "list_all is_Material [kayu_jati, batu_alam]" by code_simp
  have h3: "materials (state kayu_selected) = [kayu_jati, batu_alam]" by code_simp
  have h4: "activeFilter (state kayu_selected) = ''kayu''" by code_simp
  have h5: "searchQuery (state kayu_selected) = []" by code_simp
  have ev: "filter (\<lambda>m. ''kayu'' \<in> set (tags_of m)) [kayu_jati, batu_alam] = [kayu_jati]"
    by (simp add: tags_of_def kayu_jati_def batu_alam_def)
  show ?thesis
    using tag_filter_subsequence [OF h1 h2 h3 h4 h5] h1 h2 h3 h4 h5
    by (simp only: ev simp_thms)
qed

subsection \<open>Search\<close>



text \<open>
  Claim C10. The search step runs when the trimmed query is not empty, and then tests
  the query as typed, white space included (only put in lower case). So the queries
  "kayu" and " kayu", equal after trimming, give different results on the one-material
  list whose title is "Kayu Jati": the first keeps the material, the second drops it.
\<close>

theorem search_matches_untrimmed_query:
  "(list_all is_Material M \<longrightarrow>
      searchFilter q M = Inr (if trim q = [] then M else filter (search_hit q) M)) \<and>
   trim '' kayu'' = trim ''kayu'' \<and>
   searchFilter ''kayu'' [kayu_jati] = Inr [kayu_jati] \<and>
   searchFilter '' kayu'' [kayu_jati] = Inr []"
proof -
  have "trim '' kayu'' = trim ''kayu''" by code_simp
  moreover have "searchFilter ''kayu'' [kayu_jati] = Inr [kayu_jati]" by code_simp
  moreover have "searchFilter '' kayu'' [kayu_jati] = Inr []" by code_simp
  ultimately show ?thesis by (simp add: searchFilter_Materials)
qed

theorem search_matches_untrimmed_query_witness:
  "list_all is_Material [kayu_jati] \<and>
   searchFilter ''  '' [kayu_jati] = Inr [kayu_jati] \<and>
   searchFilter ''kayu'' [kayu_jati] = Inr [kayu_jati] \<and>
   searchFilter '' kayu'' [kayu_jati] = Inr []"
proof -
  have h: "list_all is_Material [kayu_jati]" by code_simp
  have t: "trim ''  '' = []" by code_simp
  show ?thesis
    using search_matches_untrimmed_query [of "[kayu_jati]" "''  ''"] h
    by (simp only: t if_True simp_thms)
qed


subsection \<open>The bridge's update call\<close>

lemma findIndex_Some:
  "findIndex p xs = Some i \<Longrightarrow> i < length xs \<and> p (xs ! i) \<and> (\<forall>j<i. \<not> p (xs ! j))"
proof (induction xs arbitrary: i)
  case Nil
  then show ?case by simp
next
  case (Cons x xs)
  show ?case
  proof (cases "p x")
    case True
    with Cons.prems show ?thesis by simp
  next
    case False
    with Cons.prems obtain k where k: "findIndex p xs = Some k" "i = Suc k"
      by auto
    from Cons.IH [OF k(1)] have "k < length xs" "p (xs ! k)" "\<forall>j<k. \<not> p (xs ! j)"
      by auto
    with False k(2) show ?thesis
      by (auto simp: less_Suc_eq_0_disj)
  qed
qed

lemma findIndex_None: "findIndex p xs = None \<longleftrightarrow> (\<forall>x\<in>set xs. \<not> p x)"
  by (induction xs) auto

lemma returns_the_world:
  "returns c \<Longrightarrow> (case c of Returns w' \<Rightarrow> w' | Throws e w' \<Rightarrow> g e w') = the_world c"
  by (cases c) (simp_all add: returns_def the_world_def)

lemma applyFilters_in_sync:
  assumes "list_all is_Material (materials (state w))"
  shows "filtered_in_sync (the_world (applyFilters w))"
  using applyFilters_Materials(2) [OF assms] filterPipeline_Materials [OF assms]
  by (simp add: filtered_in_sync_def)

lemma applyFilters_outside_state:
  "returns (applyFilters w) \<Longrightarrow>
   console (the_world (applyFilters w)) = console w \<and>
   sketchup (the_world (applyFilters w)) = sketchup w \<and>
   toastContainer (elements (the_world (applyFilters w))) = toastContainer (elements w)"
  by (auto simp: applyFilters_def renderMaterials_def returns_def the_world_def hideLoading_def
      set_materialsGrid_def Let_def split: sum.splits if_splits)

text \<open>
  Claim C4. For every list of Materials and every payload that parses to a Material:
  if some material has the payload's id, the first such entry is replaced where it
  stands and the length is unchanged; if none has it, the material is appended and the
  length grows by one. Either way the update completes without a diagnostic, and the
  stored filtered list is the recomputation from the new materials, the active filter
  and the search query, which the update leaves alone.
\<close>

theorem upsert_replaces_or_appends:
  assumes "list_all is_Material ms" and "is_Material m"
    and "materials (state w) = ms" and "w' = updateMaterial (MaterialPayload m) w"
  shows "((\<exists>x\<in>set ms. material_id x = material_id m) \<longrightarrow>
            length (materials (state w')) = length ms \<and>
            (\<exists>i<length ms. material_id (ms ! i) = material_id m \<and>
                (\<forall>j<i. material_id (ms ! j) \<noteq> material_id m) \<and>
                materials (state w') = ms[i := m])) \<and>
         ((\<forall>x\<in>set ms. material_id x \<noteq> material_id m) \<longrightarrow>
            materials (state w') = ms @ [m] \<and>
            length (materials (state w')) = length ms + 1) \<and>
         filtered_in_sync w' \<and>
         activeFilter (state w') = activeFilter (state w) \<and>
         searchQuery (state w') = searchQuery (state w) \<and>
         console w' = console w"
proof (cases "findIndex (\<lambda>x. material_id x = material_id m) ms")
  case None
  let ?v = "w\<lparr>state := (state w)\<lparr>materials := ms @ [m]\<rparr>\<rparr>"
  have wf: "list_all is_Material (materials (state ?v))"
    using assms by simp
  have body: "updateMaterial_try (MaterialPayload m) w = applyFilters ?v"
    using None assms(3) by (simp add: updateMaterial_try_def)
  have w': "w' = the_world (applyFilters ?v)"
    using applyFilters_Materials(1) [OF wf]
    by (simp add: assms(4) updateMaterial_def body returns_the_world)
  have absent: "\<forall>x\<in>set ms. material_id x \<noteq> material_id m"
    using None by (simp add: findIndex_None)
  show ?thesis
    using absent applyFilters_Materials(2) [OF wf] applyFilters_in_sync [OF wf]
      applyFilters_outside_state [OF applyFilters_Materials(1) [OF wf]]
    by (auto simp: w')
next
  case (Some i)
  let ?v = "w\<lparr>state := (state w)\<lparr>materials := ms[i := m]\<rparr>\<rparr>"
  have wf: "list_all is_Material (materials (state ?v))"
    using assms by (auto simp: list_all_iff dest: set_update_subset_insert [THEN subsetD])
  have body: "updateMaterial_try (MaterialPayload m) w = applyFilters ?v"
    using Some assms(3) by (simp add: updateMaterial_try_def)
  have w': "w' = the_world (applyFilters ?v)"
    using applyFilters_Materials(1) [OF wf]
    by (simp add: assms(4) updateMaterial_def body returns_the_world)
  from findIndex_Some [OF Some]
  have i: "i < length ms" "material_id (ms ! i) = material_id m"
      "\<forall>j<i. material_id (ms ! j) \<noteq> material_id m"
    by auto
  then have present: "\<exists>x\<in>set ms. material_id x = material_id m"
    using nth_mem by blast
  have ms': "materials (state w') = ms[i := m]"
    using applyFilters_Materials(2) [OF wf] by (simp add: w')
  have "\<exists>k<length ms. material_id (ms ! k) = material_id m \<and>
          (\<forall>j<k. material_id (ms ! j) \<noteq> material_id m) \<and> materials (state w') = ms[k := m]"
    using i ms' by blast
  then show ?thesis
    using present ms' applyFilters_Materials(2) [OF wf] applyFilters_in_sync [OF wf]
      applyFilters_outside_state [OF applyFilters_Materials(1) [OF wf]]
    by (auto simp: w')
qed

theorem upsert_replaces_or_appends_witness:
  "list_all is_Material [kayu_jati, batu_alam] \<and>
   is_Material kayu_jati_changed \<and> is_Material bambu_petung \<and>
   materials (state loaded_world) = [kayu_jati, batu_alam] \<and>
   material_id kayu_jati = material_id kayu_jati_changed \<and>
   materials (state (updateMaterial (MaterialPayload kayu_jati_changed) loaded_world))
     = [kayu_jati_changed, batu_alam] \<and>
   length (materials (state (updateMaterial (MaterialPayload kayu_jati_changed) loaded_world))) = 2 \<and>
   filtered_in_sync (updateMaterial (MaterialPayload kayu_jati_changed) loaded_world) \<and>
   material_id kayu_jati \<noteq> material_id bambu_petung \<and>
   material_id batu_alam \<noteq> material_id bambu_petung \<and>
   materials (state (updateMaterial (MaterialPayload bambu_petung) loaded_world))
     = [kayu_jati, batu_alam, bambu_petung] \<and>
   length (materials (state (updateMaterial (MaterialPayload bambu_petung) loaded_world))) = 3 \<and>
   filtered_in_sync (updateMaterial (MaterialPayload bambu_petung) loaded_world)"
proof -
  have h1: "list_all is_Material [kayu_jati, batu_alam]" by code_simp
  have h2: "is_Material kayu_jati_changed" by code_simp
  have h3: "is_Material bambu_petung" by code_simp
  have h4: "materials (state loaded_world) = [kayu_jati, batu_alam]" by code_simp
  have p1: "material_id kayu_jati = material_id kayu_jati_changed" by code_simp
  have p2: "material_id kayu_jati \<noteq> material_id bambu_petung" by code_simp
  have p3: "material_id batu_alam \<noteq> material_id bambu_petung" by code_simp
  have e1: "materials (state (updateMaterial (MaterialPayload kayu_jati_changed) loaded_world))
     = [kayu_jati_changed, batu_alam]" by code_simp
  note a = upsert_replaces_or_appends [OF h1 h2 h4 refl]
  note b = upsert_replaces_or_appends [OF h1 h3 h4 refl]
  have a1: "length (materials (state (updateMaterial (MaterialPayload kayu_jati_changed) loaded_world))) = 2"
    using a p1 by simp
  have a2: "filtered_in_sync (updateMaterial (MaterialPayload kayu_jati_changed) loaded_world)"
    using a by simp
  have b1: "materials (state (updateMaterial (MaterialPayload bambu_petung) loaded_world))
     = [kayu_jati, batu_alam, bambu_petung]"
    using b p2 p3 by simp
  then have b2: "length (materials (state (updateMaterial (MaterialPayload bambu_petung) loaded_world))) = 3"
    by simp
  have b3: "filtered_in_sync (updateMaterial (MaterialPayload bambu_petung) loaded_world)"
    using b by simp
  show ?thesis
    using h1 h2 h3 h4 p1 p2 p3 e1 a1 a2 b1 b2 b3 by (simp only: simp_thms)
qed

text \<open>What a failing render or a failing \<^verbatim>\<open>applyFilters\<close> leaves behind.\<close>

lemma renderMaterials_Throws:
  "renderMaterials w = Throws e w1 \<Longrightarrow> w1 = hideLoading w"
  by (auto simp: renderMaterials_def Let_def split: if_splits sum.splits)

lemma applyFilters_Throws:
  "applyFilters w = Throws e w1 \<Longrightarrow>
   w1 = w \<or> (\<exists>F. w1 = hideLoading (w\<lparr>state := (state w)\<lparr>filteredMaterials := F\<rparr>\<rparr>))"
  by (auto simp: applyFilters_def split: sum.splits dest: renderMaterials_Throws)

lemma applyFilters_Throws_frame:
  assumes "applyFilters w = Throws e w1"
  shows "console w1 = console w \<and> sketchup w1 = sketchup w \<and>
         toastContainer (elements w1) = toastContainer (elements w) \<and>
         materialsGrid (elements w1) = materialsGrid (elements w) \<and>
         materials (state w1) = materials (state w) \<and>
         activeFilter (state w1) = activeFilter (state w) \<and>
         searchQuery (state w1) = searchQuery (state w)"
  using applyFilters_Throws [OF assms] by (auto simp: hideLoading_def)

text \<open>
  Claim C5, as amended. Whenever the processing of a payload fails, the update call
  returns normally with exactly one diagnostic added to the console; it shows no toast,
  leaves the display region as it was (so no error placeholder appears), calls no host
  capability and keeps the active filter and the search query. If the payload is not
  valid JSON, the whole state and the whole page are unchanged.
\<close>

theorem upsert_failure_is_swallowed:
  assumes "updateMaterial_try p w = Throws e w1" and "w' = updateMaterial p w"
  shows "console w' = console w @ [ErrorUpdatingMaterial e] \<and>
         sketchup w' = sketchup w \<and>
         toastContainer (elements w') = toastContainer (elements w) \<and>
         materialsGrid (elements w') = materialsGrid (elements w) \<and>
         activeFilter (state w') = activeFilter (state w) \<and>
         searchQuery (state w') = searchQuery (state w) \<and>
         (p = InvalidPayload \<longrightarrow> state w' = state w \<and> elements w' = elements w)"
proof (cases p)
  case InvalidPayload
  then show ?thesis
    using assms by (auto simp: updateMaterial_def updateMaterial_try_def)
next
  case (MaterialPayload m)
  have w': "w' = w1\<lparr>console := console w1 @ [ErrorUpdatingMaterial e]\<rparr>"
    using assms by (simp add: updateMaterial_def)
  from assms(1) MaterialPayload obtain v where
    v: "applyFilters v = Throws e w1" "console v = console w" "sketchup v = sketchup w"
       "elements v = elements w" "activeFilter (state v) = activeFilter (state w)"
       "searchQuery (state v) = searchQuery (state w)"
    by (auto simp: updateMaterial_try_def split: option.splits)
  from applyFilters_Throws_frame [OF v(1)] v(2-) show ?thesis
    using MaterialPayload by (simp add: w')
qed

theorem upsert_failure_is_swallowed_witness:
  "updateMaterial_try InvalidPayload loaded_world = Throws SyntaxError loaded_world \<and>
   console (updateMaterial InvalidPayload loaded_world) = [ErrorUpdatingMaterial SyntaxError] \<and>
   toastContainer (elements (updateMaterial InvalidPayload loaded_world)) = [] \<and>
   state (updateMaterial InvalidPayload loaded_world) = state loaded_world \<and>
   elements (updateMaterial InvalidPayload loaded_world) = elements loaded_world"
proof -
  have h: "updateMaterial_try InvalidPayload loaded_world = Throws SyntaxError loaded_world"
    by (simp add: updateMaterial_try_def)
  have c: "console loaded_world = []" by code_simp
  have t: "toastContainer (elements loaded_world) = []" by code_simp
  show ?thesis
    using upsert_failure_is_swallowed [OF h refl] h by (simp add: c t)
qed

text \<open>
  Claim C5 as stated fails: a payload that parses to an object without tags is stored
  before the rendering of its card raises; the failure is logged, and both the
  materials and the filtered list have changed.
\<close>

theorem upsert_failure_not_atomic:
  "\<not> returns (updateMaterial_try (MaterialPayload untagged) loaded_world) \<and>
   console (updateMaterial (MaterialPayload untagged) loaded_world)
     = [ErrorUpdatingMaterial TypeError] \<and>
   materials (state loaded_world) = [kayu_jati, batu_alam] \<and>
   filteredMaterials (state loaded_world) = [kayu_jati, batu_alam] \<and>
   materials (state (updateMaterial (MaterialPayload untagged) loaded_world))
     = [kayu_jati, batu_alam, untagged] \<and>
   filteredMaterials (state (updateMaterial (MaterialPayload untagged) loaded_world))
     = [kayu_jati, batu_alam, untagged]"
  by code_simp


subsection \<open>Loading the catalog\<close>

lemma generateFilterTags_Throws:
  "generateFilterTags w = Throws e w1 \<Longrightarrow> w1 = w"
  by (auto simp: generateFilterTags_def split: sum.splits option.splits)

lemma generateFilterTags_Returns:
  "generateFilterTags w = Returns w1 \<Longrightarrow>
   \<exists>bs. w1 = w\<lparr>elements := (elements w)\<lparr>filtersContainer := bs\<rparr>\<rparr>"
  by (auto simp: generateFilterTags_def split: sum.splits option.splits)

lemma fetchLibrary_try_Throws:
  assumes "fetchLibrary_try r w = Throws e w1"
  shows "console w1 = console w \<and> sketchup w1 = sketchup w \<and>
         toastContainer (elements w1) = toastContainer (elements w) \<and>
         loadingInGrid (elements w1) = loadingInGrid (elements w) \<and>
         activeFilter (state w1) = activeFilter (state w) \<and>
         searchQuery (state w1) = searchQuery (state w)"
proof (cases r)
  case NetworkFailure
  with assms show ?thesis
    by (auto simp: fetchLibrary_try_def showLoading_def)
next
  case (Response ok b)
  show ?thesis
  proof (cases "ok \<and> (\<exists>data. b = CatalogJSON data)")
    case False
    with assms Response show ?thesis
      by (cases b) (auto simp: fetchLibrary_try_def showLoading_def Let_def split: if_splits)
  next
    case True
    then obtain data where b: "ok" "b = CatalogJSON data" by blast
    with assms Response show ?thesis
      by (auto simp: fetchLibrary_try_def showLoading_def hideLoading_def Let_def
          split: completion.splits option.splits if_splits
          dest!: generateFilterTags_Throws generateFilterTags_Returns renderMaterials_Throws)
  qed
qed

text \<open>
  Claim C7. On every load failure the \<^verbatim>\<open>catch\<close> block reports the failure once: one
  diagnostic on the console and the error placeholder, with the fixed message, in the
  display region; no toast is added, and \<^verbatim>\<open>isLoading\<close> is false afterwards. The
  failure path never calls \<^verbatim>\<open>hideLoading\<close>: the loading indicator goes away because
  the placeholder replaces the content of the display region, that is, on a page whose
  indicator lies inside the display region.
\<close>

theorem load_failure_reported:
  assumes "fetchLibrary_try r w = Throws e w1" and "w' = fetchLibrary r w"
  shows "materialsGrid (elements w') = ErrorState errorMessage \<and>
         \<not> isLoading (state w') \<and>
         console w' = console w @ [ErrorFetchingLibrary e] \<and>
         toastContainer (elements w') = toastContainer (elements w) \<and>
         (loadingInGrid (elements w) \<longrightarrow> loadingHidden w')"
proof -
  have w': "w' = fetchLibrary_catch e w1"
    using assms by (simp add: fetchLibrary_def)
  show ?thesis
    using fetchLibrary_try_Throws [OF assms(1)]
    by (simp add: w' fetchLibrary_catch_def showError_def set_materialsGrid_def
        loadingHidden_def Let_def)
qed

theorem load_failure_reported_witness:
  "fetchLibrary_try NetworkFailure (initial_world True)
     = Throws NetworkError (showLoading (initial_world True)) \<and>
   loadingInGrid (elements (initial_world True)) \<and>
   materialsGrid (elements (fetchLibrary NetworkFailure (initial_world True)))
     = ErrorState errorMessage \<and>
   loadingHidden (fetchLibrary NetworkFailure (initial_world True)) \<and>
   \<not> isLoading (state (fetchLibrary NetworkFailure (initial_world True))) \<and>
   console (fetchLibrary NetworkFailure (initial_world True))
     = [ErrorFetchingLibrary NetworkError] \<and>
   toastContainer (elements (fetchLibrary NetworkFailure (initial_world True))) = []"
proof -
  have h1: "fetchLibrary_try NetworkFailure (initial_world True)
     = Throws NetworkError (showLoading (initial_world True))"
    by (simp add: fetchLibrary_try_def initial_world_def initial_state_def showLoading_def)
  have h2: "loadingInGrid (elements (initial_world True))"
    by (simp add: initial_world_def initial_page_def)
  have c: "console (initial_world True) = []"
    by (simp add: initial_world_def)
  have t: "toastContainer (elements (initial_world True)) = []"
    by (simp add: initial_world_def initial_page_def)
  show ?thesis
    using load_failure_reported [OF h1 refl] h1 h2 by (simp add: c t)
qed

text \<open>
  On a page whose loading indicator lies outside the display region, a load that fails
  before anything is rendered leaves the indicator displayed.
\<close>

lemma load_failure_indicator_outside_grid:
  assumes "\<not> loadingInGrid (elements w)" and "loadingAttached (elements w)"
  shows "\<not> loadingHidden (fetchLibrary NetworkFailure w)"
  using assms
  by (simp add: fetchLibrary_def fetchLibrary_try_def fetchLibrary_catch_def showError_def
      set_materialsGrid_def showLoading_def loadingHidden_def Let_def)

text \<open>
  Claim C6, as amended. A failed load never changes the active filter or the search
  query. If it fails because of a network failure, a non-success status or a body that
  does not parse to a catalog object (not valid JSON, or \<^verbatim>\<open>null\<close>), the materials
  and the filtered list are exactly as they were before the load.
\<close>

theorem failed_load_keeps_state:
  assumes "fetchLibrary_try r w = Throws e w1" and "w' = fetchLibrary r w"
  shows "activeFilter (state w') = activeFilter (state w) \<and>
         searchQuery (state w') = searchQuery (state w) \<and>
         ((\<forall>data. r \<noteq> Response True (CatalogJSON data)) \<longrightarrow>
            materials (state w') = materials (state w) \<and>
            filteredMaterials (state w') = filteredMaterials (state w))"
proof -
  have w': "w' = fetchLibrary_catch e w1"
    using assms by (simp add: fetchLibrary_def)
  have frame: "activeFilter (state w') = activeFilter (state w) \<and>
         searchQuery (state w') = searchQuery (state w)"
    using fetchLibrary_try_Throws [OF assms(1)]
    by (simp add: w' fetchLibrary_catch_def showError_def set_materialsGrid_def Let_def)
  have "materials (state w') = materials (state w) \<and>
        filteredMaterials (state w') = filteredMaterials (state w)"
    if no: "\<forall>data. r \<noteq> Response True (CatalogJSON data)"
  proof (cases r)
    case NetworkFailure
    with assms(1) show ?thesis
      by (auto simp: w' fetchLibrary_try_def fetchLibrary_catch_def showError_def
          set_materialsGrid_def showLoading_def Let_def)
  next
    case (Response ok b)
    with no assms(1) show ?thesis
      by (cases b)
        (auto simp: w' fetchLibrary_try_def fetchLibrary_catch_def showError_def
          set_materialsGrid_def showLoading_def Let_def split: if_splits)
  qed
  with frame show ?thesis by blast
qed

theorem failed_load_keeps_state_witness:
  "fetchLibrary_try (Response True InvalidJSON) kayu_selected
     = Throws SyntaxError
         (showLoading (kayu_selected\<lparr>state := (state kayu_selected)\<lparr>isLoading := True\<rparr>\<rparr>)) \<and>
   activeFilter (state (fetchLibrary (Response True InvalidJSON) kayu_selected)) = ''kayu'' \<and>
   searchQuery (state (fetchLibrary (Response True InvalidJSON) kayu_selected)) = [] \<and>
   materials (state (fetchLibrary (Response True InvalidJSON) kayu_selected))
     = [kayu_jati, batu_alam] \<and>
   filteredMaterials (state (fetchLibrary (Response True InvalidJSON) kayu_selected))
     = [kayu_jati]"
proof -
  have h: "fetchLibrary_try (Response True InvalidJSON) kayu_selected
     = Throws SyntaxError
         (showLoading (kayu_selected\<lparr>state := (state kayu_selected)\<lparr>isLoading := True\<rparr>\<rparr>))"
    by (simp add: fetchLibrary_try_def)
  have s1: "activeFilter (state kayu_selected) = ''kayu''" by code_simp
  have s2: "searchQuery (state kayu_selected) = []" by code_simp
  have s3: "materials (state kayu_selected) = [kayu_jati, batu_alam]" by code_simp
  have s4: "filteredMaterials (state kayu_selected) = [kayu_jati]" by code_simp
  show ?thesis
    using failed_load_keeps_state [OF h refl] h by (simp add: s1 s2 s3 s4)
qed

text \<open>
  Claim C6 as stated fails: \<^verbatim>\<open>state.materials\<close> is assigned before the filter controls
  and the cards are built, so a body that parses but holds a material without tags
  makes the refresh fail (the error placeholder is shown) after the materials were
  replaced.
\<close>

theorem failed_load_replaces_materials:
  "\<not> returns (fetchLibrary_try (Response True (CatalogJSON untagged_library)) loaded_world) \<and>
   materials (state loaded_world) = [kayu_jati, batu_alam] \<and>
   materials (state (refreshLibrary (Response True (CatalogJSON untagged_library)) loaded_world))
     = [untagged] \<and>
   materialsGrid (elements
       (refreshLibrary (Response True (CatalogJSON untagged_library)) loaded_world))
     = ErrorState errorMessage"
  by code_simp

subsection \<open>The apply action\<close>

text \<open>
  Claim C8. For every id passed to \<^verbatim>\<open>applyMaterial\<close>: if no material has that id, one
  toast of type "error" with the not-found message is added and nothing else changes;
  if a material has it and there is no host object, one toast of type "success" naming
  that material's title is added, and the state is unchanged.
\<close>

theorem apply_lookup_failure_or_simulation:
  assumes "w' = applyMaterial materialId w"
  shows "((\<forall>m\<in>set (materials (state w)). material_id m \<noteq> materialId) \<longrightarrow>
            state w' = state w \<and> console w' = console w \<and> sketchup w' = sketchup w \<and>
            elements w' = (elements w)
              \<lparr>toastContainer := toastContainer (elements w)
                 @ [\<lparr>toast_message = NotFound, toast_type = ''error''\<rparr>]\<rparr>) \<and>
         ((\<exists>m\<in>set (materials (state w)). material_id m = materialId) \<and> sketchup w = None \<longrightarrow>
            state w' = state w \<and> sketchup w' = None \<and>
            (\<exists>m\<in>set (materials (state w)). material_id m = materialId \<and>
               elements w' = (elements w)
                 \<lparr>toastContainer := toastContainer (elements w)
                    @ [\<lparr>toast_message = ReadyToApply (template (title m)),
                        toast_type = ''success''\<rparr>]\<rparr>))"
proof (cases "find (\<lambda>m. material_id m = materialId) (materials (state w))")
  case None
  then have "\<forall>m\<in>set (materials (state w)). material_id m \<noteq> materialId"
    by (simp add: find_None_iff)
  with None assms show ?thesis
    by (auto simp: applyMaterial_def showToast_def)
next
  case (Some m)
  then have m: "m \<in> set (materials (state w))" "material_id m = materialId"
    by (auto simp: find_Some_iff)
  with Some assms show ?thesis
    by (auto simp: applyMaterial_def showToast_def Let_def split: option.splits)
qed

theorem apply_lookup_failure_or_simulation_witness:
  "material_id kayu_jati \<noteq> Some ''missing-id'' \<and>
   material_id batu_alam \<noteq> Some ''missing-id'' \<and>
   state (applyMaterial (Some ''missing-id'') loaded_world) = state loaded_world \<and>
   toastContainer (elements (applyMaterial (Some ''missing-id'') loaded_world))
     = [\<lparr>toast_message = NotFound, toast_type = ''error''\<rparr>] \<and>
   material_id batu_alam = Some ''b'' \<and> sketchup loaded_world = None \<and>
   state (applyMaterial (Some ''b'') loaded_world) = state loaded_world \<and>
   toastContainer (elements (applyMaterial (Some ''b'') loaded_world))
     = [\<lparr>toast_message = ReadyToApply ''Batu Alam'', toast_type = ''success''\<rparr>]"
proof -
  have ms: "materials (state loaded_world) = [kayu_jati, batu_alam]" by code_simp
  have t: "toastContainer (elements loaded_world) = []" by code_simp
  have h: "sketchup loaded_world = None" by code_simp
  have ids: "material_id kayu_jati = Some ''a''" "material_id batu_alam = Some ''b''"
    by (simp_all add: kayu_jati_def batu_alam_def)
  have titles: "title batu_alam = Some ''Batu Alam''"
    by (simp add: batu_alam_def)
  show ?thesis
    using apply_lookup_failure_or_simulation
        [where materialId = "Some ''missing-id''" and w = loaded_world, OF refl]
      apply_lookup_failure_or_simulation
        [where materialId = "Some ''b''" and w = loaded_world, OF refl]
    by (simp add: ms t h ids titles template_def)
qed

subsection \<open>Refreshing a loaded page\<close>

text \<open>
  The handlers that end in \<^verbatim>\<open>applyFilters\<close> leave the stored filtered list equal to
  its recomputation.
\<close>

lemma setActiveFilter_in_sync:
  assumes "list_all is_Material (materials (state w))"
  shows "returns (setActiveFilter f w) \<and> filtered_in_sync (the_world (setActiveFilter f w))"
proof -
  let ?v = "w\<lparr>state := (state w)\<lparr>activeFilter := f\<rparr>,
          elements := (elements w)
            \<lparr>filtersContainer :=
               map (\<lambda>btn. btn\<lparr>active := (data_filter btn = f)\<rparr>) (filtersContainer (elements w))\<rparr>\<rparr>"
  have wf: "list_all is_Material (materials (state ?v))"
    using assms by simp
  show ?thesis
    using applyFilters_Materials(1) [OF wf] applyFilters_in_sync [OF wf]
    by (simp add: setActiveFilter_def)
qed

lemma onSearchInput_in_sync:
  assumes "list_all is_Material (materials (state w))"
  shows "returns (onSearchInput w) \<and> filtered_in_sync (the_world (onSearchInput w))"
proof -
  let ?v = "w\<lparr>state := (state w)\<lparr>searchQuery := searchInput (elements w)\<rparr>\<rparr>"
  have wf: "list_all is_Material (materials (state ?v))"
    using assms by simp
  show ?thesis
    using applyFilters_Materials(1) [OF wf] applyFilters_in_sync [OF wf]
    by (simp add: onSearchInput_def)
qed

lemma onSearchKeydown_in_sync:
  assumes "list_all is_Material (materials (state w))"
  shows "returns (onSearchKeydown ''Escape'' w) \<and>
         filtered_in_sync (the_world (onSearchKeydown ''Escape'' w)) \<and>
         searchQuery (state (the_world (onSearchKeydown ''Escape'' w))) = []"
proof -
  let ?v = "w\<lparr>elements := (elements w)\<lparr>searchInput := []\<rparr>,
             state := (state w)\<lparr>searchQuery := []\<rparr>\<rparr>"
  have wf: "list_all is_Material (materials (state ?v))"
    using assms by simp
  show ?thesis
    using applyFilters_Materials [OF wf] applyFilters_in_sync [OF wf]
    by (simp add: onSearchKeydown_def)
qed

text \<open>
  A load that succeeds stores the catalog's materials, unfiltered, as the filtered list,
  and does not touch the active filter or the search query.
\<close>

lemma fetchLibrary_success_state:
  assumes "fetchLibrary_try r w = Returns w'"
  shows "\<exists>data. r = Response True (CatalogJSON data) \<and>
           state w' = (state w)
             \<lparr>materials := (case catalog_materials data of None \<Rightarrow> [] | Some l \<Rightarrow> l),
              filteredMaterials := (case catalog_materials data of None \<Rightarrow> [] | Some l \<Rightarrow> l),
              isLoading := False\<rparr>"
proof -
  from assms obtain data where r: "r = Response True (CatalogJSON data)"
    by (cases r; simp add: fetchLibrary_try_def Let_def split: if_splits body.splits)
  define ms where "ms = (case catalog_materials data of None \<Rightarrow> [] | Some l \<Rightarrow> l)"
  define w1 where "w1 = showLoading (w\<lparr>state := (state w)\<lparr>isLoading := True\<rparr>\<rparr>)"
  define w2 where "w2 = w1\<lparr>state := (state w1)\<lparr>materials := ms, filteredMaterials := ms\<rparr>\<rparr>"
  define w3 where "w3 = (case last_sync data of
                           None \<Rightarrow> w2
                         | Some d \<Rightarrow>
                             if d \<noteq> [] then w2\<lparr>elements := (elements w2)\<lparr>syncTime := d\<rparr>\<rparr>
                             else w2)"
  have body: "fetchLibrary_try r w =
      (case generateFilterTags w3 of
         Throws e v \<Rightarrow> Throws e v
       | Returns w4 \<Rightarrow>
           (case renderMaterials w4 of
              Throws e v \<Rightarrow> Throws e v
            | Returns w5 \<Rightarrow> Returns (w5\<lparr>state := (state w5)\<lparr>isLoading := False\<rparr>\<rparr>)))"
    unfolding r fetchLibrary_try_def Let_def w1_def w2_def w3_def ms_def
    by (simp only: response.case body.case simp_thms if_False)
  from assms body obtain w4 where g: "generateFilterTags w3 = Returns w4"
    by (cases "generateFilterTags w3") auto
  from assms body g obtain w5 where
    rd: "renderMaterials w4 = Returns w5"
    and w': "w' = w5\<lparr>state := (state w5)\<lparr>isLoading := False\<rparr>\<rparr>"
    by (cases "renderMaterials w4") auto
  have s3: "state w3 = (state w)\<lparr>isLoading := True, materials := ms, filteredMaterials := ms\<rparr>"
    by (simp add: w3_def w2_def w1_def showLoading_def split: option.splits)
  have s4: "state w4 = state w3"
    using generateFilterTags_Returns [OF g] by auto
  have s5: "state w5 = state w4"
    using renderMaterials_state [of w4] by (simp add: rd the_world_def)
  show ?thesis
    using r by (simp add: w' s5 s4 s3 ms_def)
qed

text \<open>
  The controls \<^verbatim>\<open>generateFilterTags\<close> derives: the allow-list restricted to the
  categories that are a tag of some material, in allow-list order. On a page that holds
  the "all" control only, the result is that control followed by one control per
  surviving category.
\<close>

lemma fold_Set_add: "set (fold Set_add ts acc) = set acc \<union> set ts"
  by (induction ts arbitrary: acc) (auto simp: Set_add_def)

lemma allTags_Materials:
  "list_all is_Material ms \<Longrightarrow>
   \<exists>all. allTags ms acc = Inr all \<and> set all = set acc \<union> (\<Union>m\<in>set ms. set (tags_of m))"
proof (induction ms arbitrary: acc)
  case Nil
  then show ?case by simp
next
  case (Cons m ms)
  then obtain ts where ts: "tags m = Some ts"
    by (auto simp: is_Material_def)
  from Cons obtain all where
    "allTags ms (fold Set_add ts acc) = Inr all"
    "set all = set (fold Set_add ts acc) \<union> (\<Union>m\<in>set ms. set (tags_of m))"
    by fastforce
  with ts show ?case
    by (auto simp: fold_Set_add tags_of_def)
qed

lemma first_load_controls:
  assumes "list_all is_Material ms" and "materials (state w) = ms"
    and "filtersContainer (elements w) = [b]" and "data_filter b = ''all''"
  shows "returns (generateFilterTags w) \<and>
         filtersContainer (elements (the_world (generateFilterTags w)))
           = b # filtersHtml (filter (\<lambda>cat. \<exists>m\<in>set ms. cat \<in> set (tags_of m)) mainCategories) \<and>
         distinct (map data_filter (filtersContainer (elements (the_world (generateFilterTags w)))))"
proof -
  from allTags_Materials [OF assms(1), of "[]"] obtain all where
    all: "allTags ms [] = Inr all" "set all = (\<Union>m\<in>set ms. set (tags_of m))"
    by auto
  have cats: "categoryTags all
      = filter (\<lambda>cat. \<exists>m\<in>set ms. cat \<in> set (tags_of m)) mainCategories"
    by (simp add: categoryTags_def all(2))
  have labels: "map data_filter (filtersHtml cs) = cs" for cs
    by (induction cs) (simp_all add: filtersHtml_def)
  have d: "distinct mainCategories" "''all'' \<notin> set mainCategories"
    by (simp_all add: mainCategories_def)
  have "distinct (''all'' # filter (\<lambda>cat. \<exists>m\<in>set ms. cat \<in> set (tags_of m)) mainCategories)"
    using d by auto
  then show ?thesis
    using assms(2-4) all(1) cats
    by (simp add: generateFilterTags_def returns_def the_world_def labels)
qed

text \<open>
  Claim C1 fails on the code. \<^verbatim>\<open>fetchLibrary\<close> stores a copy of the new materials
  as the filtered list and never calls \<^verbatim>\<open>applyFilters\<close>. After a click on "kayu", a
  refresh that succeeds leaves both materials in the filtered list while the active
  filter is still "kayu"; the recomputation gives the first material only.
\<close>

theorem refresh_leaves_filtered_list_stale:
  "returns (fetchLibrary_try (Response True (CatalogJSON library)) kayu_selected) \<and>
   activeFilter (state (refreshLibrary (Response True (CatalogJSON library)) kayu_selected))
     = ''kayu'' \<and>
   searchQuery (state (refreshLibrary (Response True (CatalogJSON library)) kayu_selected))
     = [] \<and>
   materials (state (refreshLibrary (Response True (CatalogJSON library)) kayu_selected))
     = [kayu_jati, batu_alam] \<and>
   filteredMaterials (state (refreshLibrary (Response True (CatalogJSON library)) kayu_selected))
     = [kayu_jati, batu_alam] \<and>
   filterPipeline [kayu_jati, batu_alam] ''kayu'' [] = Inr [kayu_jati] \<and>
   \<not> filtered_in_sync (refreshLibrary (Response True (CatalogJSON library)) kayu_selected)"
  by code_simp

text \<open>
  Claim C9 fails on the code at a refresh. \<^verbatim>\<open>generateFilterTags\<close> inserts the derived
  controls after the "all" control and removes none: the first load gives
  all, kayu, batu; a refresh with the same catalog gives all, kayu, batu, kayu, batu.
\<close>

theorem refresh_duplicates_filter_controls:
  "map data_filter (filtersContainer (elements loaded_world)) = [''all'', ''kayu'', ''batu''] \<and>
   categoryTags [''kayu'', ''batu''] = [''kayu'', ''batu''] \<and>
   map data_filter
     (filtersContainer (elements (refreshLibrary (Response True (CatalogJSON library)) loaded_world)))
     = [''all'', ''kayu'', ''batu'', ''kayu'', ''batu'']"
  by code_simp

end
